theory Spec2Isabelle
  imports Complex_Main
begin

section \<open>Rock-Paper-Scissors-Plus: game state and rule engine\<close>

text \<open>
  A shallow embedding of \<^verbatim>\<open>game_state.py\<close>, \<^verbatim>\<open>game_tools.py\<close> and of the round
  processing of \<^verbatim>\<open>game_referee.py\<close>.

  Python text is modelled as \<^typ>\<open>string\<close>, each \<^typ>\<open>char\<close> standing for one code point
  below 256; Python integers are \<^typ>\<open>int\<close>; an argument or field that may be
  \<^verbatim>\<open>None\<close> is an \<^typ>\<open>'a option\<close>. The module-level \<^verbatim>\<open>game_state\<close> object is passed
  explicitly: a tool that touches it takes the state and returns its result together
  with the state it leaves behind.
\<close>

subsection \<open>game\_state.py\<close>

record GameState =
  current_round :: int
  user_score :: int
  bot_score :: int
  user_bomb_used :: bool
  bot_bomb_used :: bool
  game_over :: bool
  last_user_move :: "string option"
  last_bot_move :: "string option"
  last_round_result :: "string option"

text \<open>The dataclass defaults: the state that \<^verbatim>\<open>GameState()\<close> constructs.\<close>

definition GameState_default :: GameState where
  "GameState_default =
     \<lparr>current_round = 0, user_score = 0, bot_score = 0,
      user_bomb_used = False, bot_bomb_used = False, game_over = False,
      last_user_move = None, last_bot_move = None, last_round_result = None\<rparr>"

text \<open>
  The values a state dictionary holds, and the dictionary itself as an association list
  in insertion order (a Python \<^verbatim>\<open>dict\<close> keeps that order and has no duplicate key).
\<close>

datatype pyval = PInt int | PBool bool | PStr string | PNone

type_synonym pydict = "(string \<times> pyval) list"

fun opt_str :: "string option \<Rightarrow> pyval" where
  "opt_str None = PNone"
| "opt_str (Some t) = PStr t"

definition to_dict :: "GameState \<Rightarrow> pydict" where
  "to_dict self =
     [(''current_round'', PInt (current_round self)),
      (''user_score'', PInt (user_score self)),
      (''bot_score'', PInt (bot_score self)),
      (''user_bomb_used'', PBool (user_bomb_used self)),
      (''bot_bomb_used'', PBool (bot_bomb_used self)),
      (''game_over'', PBool (game_over self)),
      (''last_user_move'', opt_str (last_user_move self)),
      (''last_bot_move'', opt_str (last_bot_move self)),
      (''last_round_result'', opt_str (last_round_result self))]"

text \<open>
  \<^verbatim>\<open>from_dict\<close> is \<^verbatim>\<open>cls(**data)\<close>: the generated constructor raises \<^verbatim>\<open>TypeError\<close> on a
  keyword that is no field and takes the default of a field that is missing. It checks
  no value: a value that is not of the field's declared type would be stored as it is,
  which the typed record cannot hold, so the model reports it as \<open>IllTyped\<close>.
\<close>

datatype error = TypeError | IllTyped

definition field_names :: "string list" where
  "field_names =
     [''current_round'', ''user_score'', ''bot_score'', ''user_bomb_used'',
      ''bot_bomb_used'', ''game_over'', ''last_user_move'', ''last_bot_move'',
      ''last_round_result'']"

definition arg_int :: "pydict \<Rightarrow> string \<Rightarrow> int \<Rightarrow> int option" where
  "arg_int data k dflt =
     (case map_of data k of None \<Rightarrow> Some dflt | Some (PInt i) \<Rightarrow> Some i | Some _ \<Rightarrow> None)"

definition arg_bool :: "pydict \<Rightarrow> string \<Rightarrow> bool \<Rightarrow> bool option" where
  "arg_bool data k dflt =
     (case map_of data k of None \<Rightarrow> Some dflt | Some (PBool b) \<Rightarrow> Some b | Some _ \<Rightarrow> None)"

definition arg_opt_str :: "pydict \<Rightarrow> string \<Rightarrow> string option \<Rightarrow> string option option" where
  "arg_opt_str data k dflt =
     (case map_of data k of None \<Rightarrow> Some dflt | Some PNone \<Rightarrow> Some None
      | Some (PStr t) \<Rightarrow> Some (Some t) | Some _ \<Rightarrow> None)"

definition from_dict :: "pydict \<Rightarrow> error + GameState" where
  "from_dict data =
     (if list_ex (\<lambda>k. k \<notin> set field_names) (map fst data) then Inl TypeError
      else
        (case (arg_int data ''current_round'' 0, arg_int data ''user_score'' 0,
               arg_int data ''bot_score'' 0, arg_bool data ''user_bomb_used'' False,
               arg_bool data ''bot_bomb_used'' False, arg_bool data ''game_over'' False,
               arg_opt_str data ''last_user_move'' None,
               arg_opt_str data ''last_bot_move'' None,
               arg_opt_str data ''last_round_result'' None) of
           (Some cr, Some us, Some bs, Some ub, Some bb, Some go, Some lu, Some lb, Some lr) \<Rightarrow>
             Inr \<lparr>current_round = cr, user_score = us, bot_score = bs,
                  user_bomb_used = ub, bot_bomb_used = bb, game_over = go,
                  last_user_move = lu, last_bot_move = lb, last_round_result = lr\<rparr>
         | _ \<Rightarrow> Inl IllTyped))"

definition reset :: "GameState \<Rightarrow> GameState" where
  "reset self =
     self\<lparr>current_round := 0, user_score := 0, bot_score := 0,
          user_bomb_used := False, bot_bomb_used := False, game_over := False,
          last_user_move := None, last_bot_move := None, last_round_result := None\<rparr>"

subsection \<open>Text normalisation: \<^verbatim>\<open>str.lower\<close> and \<^verbatim>\<open>str.strip\<close>\<close>

text \<open>
  On code points below 256, \<^verbatim>\<open>str.lower\<close> maps \<^verbatim>\<open>A\<close>..\<^verbatim>\<open>Z\<close> and the capital letters
  U+00C0..U+00DE (the multiplication sign U+00D7 apart) to the code point 32 above and
  leaves every other character alone; \<^verbatim>\<open>str.strip()\<close> removes from both ends the
  characters for which \<^verbatim>\<open>str.isspace\<close> holds: U+0009..U+000D, U+001C..U+0020, U+0085
  and U+00A0.
\<close>

definition lower_char :: "char \<Rightarrow> char" where
  "lower_char c =
     (let n = (of_char c :: nat) in
      if (65 \<le> n \<and> n \<le> 90) \<or> (192 \<le> n \<and> n \<le> 222 \<and> n \<noteq> 215)
      then char_of (n + 32) else c)"

definition lower :: "string \<Rightarrow> string" where
  "lower t = map lower_char t"

definition is_space :: "char \<Rightarrow> bool" where
  "is_space c =
     (let n = (of_char c :: nat) in
      (9 \<le> n \<and> n \<le> 13) \<or> (28 \<le> n \<and> n \<le> 32) \<or> n = 133 \<or> n = 160)"

definition strip :: "string \<Rightarrow> string" where
  "strip t = rev (dropWhile is_space (rev (dropWhile is_space t)))"

subsection \<open>game\_tools.py\<close>

text \<open>
  The result dictionary of \<^verbatim>\<open>validate_move\<close> has one of two shapes:
  \<^verbatim>\<open>{"valid": False, "reason": r}\<close> and \<^verbatim>\<open>{"valid": True, "reason": r, "move": m}\<close>.
\<close>

datatype validation = Invalid string | Valid string string

fun valid :: "validation \<Rightarrow> bool" where
  "valid (Invalid r) = False"
| "valid (Valid r m) = True"

definition valid_moves :: "string list" where
  "valid_moves = [''rock'', ''paper'', ''scissors'', ''bomb'']"

definition validate_move :: "string \<Rightarrow> bool \<Rightarrow> GameState \<Rightarrow> validation \<times> GameState" where
  "validate_move move0 is_user game_state =
     (let move = strip (lower move0) in
      if move \<notin> set valid_moves then
        (Invalid (''Invalid move '' @ [CHR 0x27] @ move @ [CHR 0x27]
                  @ ''. Valid moves: rock, paper, scissors, bomb''), game_state)
      else if move = ''bomb'' then
        (if is_user \<and> user_bomb_used game_state then
           (Invalid ''You already used your bomb this game'', game_state)
         else if \<not> is_user \<and> bot_bomb_used game_state then
           (Invalid ''Bot already used bomb'', game_state)
         else (Valid ''Move is valid'' move, game_state))
      else (Valid ''Move is valid'' move, game_state))"

record round_result =
  winner :: string
  user_move :: string
  bot_move :: string

definition resolve_round :: "string \<Rightarrow> string \<Rightarrow> round_result" where
  "resolve_round um bm =
     (let result =
        (if um = ''bomb'' \<and> bm = ''bomb'' then ''draw''
         else if um = ''bomb'' then ''user''
         else if bm = ''bomb'' then ''bot''
         else if um = bm then ''draw''
         else if (um = ''rock'' \<and> bm = ''scissors'') \<or>
                 (um = ''scissors'' \<and> bm = ''paper'') \<or>
                 (um = ''paper'' \<and> bm = ''rock'') then ''user''
         else ''bot'')
      in \<lparr>winner = result, user_move = um, bot_move = bm\<rparr>)"

text \<open>
  \<^verbatim>\<open>update_game_state\<close>: the assignments to the global state in the order of the
  source. The three text arguments default to \<^verbatim>\<open>None\<close>.
\<close>

definition update_game_state ::
  "string option \<Rightarrow> string option \<Rightarrow> string option \<Rightarrow> bool \<Rightarrow> GameState \<Rightarrow> pydict \<times> GameState"
where
  "update_game_state um bm round_winner invalid_input game_state =
     (let s1 = game_state\<lparr>current_round := current_round game_state + 1\<rparr>;
          s2 = s1\<lparr>last_user_move := um, last_bot_move := bm\<rparr>;
          s3 = (if \<not> invalid_input then
                  (let a = (if round_winner = Some ''user'' then
                              s2\<lparr>user_score := user_score s2 + 1,
                                 last_round_result := Some ''user''\<rparr>
                            else if round_winner = Some ''bot'' then
                              s2\<lparr>bot_score := bot_score s2 + 1,
                                 last_round_result := Some ''bot''\<rparr>
                            else s2\<lparr>last_round_result := Some ''draw''\<rparr>);
                       b = (if um = Some ''bomb'' then a\<lparr>user_bomb_used := True\<rparr> else a)
                   in (if bm = Some ''bomb'' then b\<lparr>bot_bomb_used := True\<rparr> else b))
                else s2\<lparr>last_round_result := Some ''invalid''\<rparr>);
          s4 = (if current_round s3 \<ge> 3 then s3\<lparr>game_over := True\<rparr> else s3)
      in (to_dict s4, s4))"

definition get_game_state :: "GameState \<Rightarrow> pydict \<times> GameState" where
  "get_game_state game_state = (to_dict game_state, game_state)"

text \<open>
  The random source of \<^verbatim>\<open>get_bot_move\<close> is explicit: \<open>random\<close> is the value that
  \<^verbatim>\<open>random.random()\<close> returns if it is called, and \<open>randbelow\<close> the draw from which
  \<^verbatim>\<open>random.choice\<close> takes its index below the length of the list. The values of
  \<^verbatim>\<open>random.random()\<close> are multiples of \<open>2^-53\<close>, for which comparing with the float
  \<^verbatim>\<open>0.3\<close> and with the real number \<open>3/10\<close> agree.
\<close>

record rng =
  random :: real
  randbelow :: nat

definition choice :: "rng \<Rightarrow> string list \<Rightarrow> string" where
  "choice g xs = xs ! (randbelow g mod length xs)"

definition available_moves :: "string list" where
  "available_moves = [''rock'', ''paper'', ''scissors'']"

definition get_bot_move :: "rng \<Rightarrow> GameState \<Rightarrow> string \<times> GameState" where
  "get_bot_move g game_state =
     (if \<not> bot_bomb_used game_state \<and> current_round game_state \<ge> 1 \<and> random g < 3 / 10
      then (''bomb'', game_state)
      else (choice g available_moves, game_state))"

definition reset_game :: "GameState \<Rightarrow> pydict \<times> GameState" where
  "reset_game game_state = (let s = reset game_state in (to_dict s, s))"

subsection \<open>game\_referee.py: processing one user input\<close>

text \<open>
  \<^verbatim>\<open>GameReferee.process_user_input\<close> returns a text. Its first return is a fixed
  message; the two others are round reports, formatted from the data that the
  constructors below carry (the wording of the reports is not modelled). The test
  \<^verbatim>\<open>state['game_over']\<close> reads the dictionary of \<^verbatim>\<open>get_game_state\<close>, that is the
  \<open>game_over\<close> field of the state (lemma \<open>get_game_state_game_over\<close>).
\<close>

datatype response =
    Message string
  | InvalidReport string string pydict
  | RoundReport string string string pydict

definition process_user_input :: "string \<Rightarrow> rng \<Rightarrow> GameState \<Rightarrow> response \<times> GameState" where
  "process_user_input user_input g game_state =
     (if game_over game_state then
        (Message ''Game is already over! Type 'quit' to exit or restart.'', game_state)
      else
        (case validate_move user_input True game_state of
           (Invalid reason, s1) \<Rightarrow>
             (let (d, s2) = update_game_state (Some user_input) None (Some ''invalid'') True s1;
                  (state, s3) = get_game_state s2
              in (InvalidReport user_input reason state, s3))
         | (Valid reason move, s1) \<Rightarrow>
             (let (bot, s2) = get_bot_move g s1;
                  result = resolve_round move bot;
                  (d, s3) = update_game_state (Some move) (Some bot)
                              (Some (winner result)) False s2;
                  (state, s4) = get_game_state s3
              in (RoundReport move bot (winner result) state, s4))))"

text \<open>
  A match driven through the referee: the inputs of the user, each with the outcome of
  the random source for that round, processed from left to right.
\<close>

fun play :: "(string \<times> rng) list \<Rightarrow> GameState \<Rightarrow> GameState" where
  "play [] s = s"
| "play ((u, g) # rest) s = play rest (snd (process_user_input u g s))"

text \<open>Rounds applied to the state by calling \<^verbatim>\<open>update_game_state\<close> directly.\<close>

fun update_rounds ::
  "(string option \<times> string option \<times> string option \<times> bool) list \<Rightarrow> GameState \<Rightarrow> GameState"
where
  "update_rounds [] s = s"
| "update_rounds ((um, bm, w, invalid_input) # rest) s =
     update_rounds rest (snd (update_game_state um bm w invalid_input s))"

subsection \<open>The round rules in the words of the specification\<close>

text \<open>
  The beats-relation and the decision order of \<open>resolveRound\<close> as the specification
  lists them, to be compared with \<open>resolve_round\<close> above.
\<close>

definition beats :: "string \<Rightarrow> string \<Rightarrow> bool" where
  "beats a b =
     ((a, b) \<in> {(''rock'', ''scissors''), (''scissors'', ''paper''), (''paper'', ''rock'')})"

definition resolveRound_spec :: "string \<Rightarrow> string \<Rightarrow> string" where
  "resolveRound_spec userMove botMove =
     (if userMove = ''bomb'' \<and> botMove = ''bomb'' then ''draw''
      else if userMove = ''bomb'' then ''user''
      else if botMove = ''bomb'' then ''bot''
      else if userMove = botMove then ''draw''
      else if beats userMove botMove then ''user''
      else ''bot'')"

subsection \<open>States used as examples\<close>

text \<open>A finished match: three rounds played, the user one point ahead.\<close>

definition over3 :: GameState where
  "over3 =
     \<lparr>current_round = 3, user_score = 1, bot_score = 0,
      user_bomb_used = False, bot_bomb_used = False, game_over = True,
      last_user_move = Some ''rock'', last_bot_move = Some ''scissors'',
      last_round_result = Some ''user''\<rparr>"

text \<open>
  The invariant that the referee keeps: the round counter is between 0 and 3, and a
  match that is not over has played fewer than three rounds.
\<close>

definition round_inv :: "GameState \<Rightarrow> bool" where
  "round_inv s =
     (0 \<le> current_round s \<and> current_round s \<le> 3 \<and> (game_over s \<or> current_round s < 3))"

text \<open>
  The scenario of the specification: rock against scissors, an unrecognised input, then
  bomb against paper. The random source makes the bot choose scissors in the first round
  and, with a draw of 1/2 that does not trigger the bomb, paper in the third.
\<close>

definition scenario :: "(string \<times> rng) list" where
  "scenario =
     [(''rock'', \<lparr>random = 0, randbelow = 2\<rparr>),
      (''bad'', \<lparr>random = 0, randbelow = 0\<rparr>),
      (''bomb'', \<lparr>random = 1 / 2, randbelow = 1\<rparr>)]"

section \<open>Properties\<close>

subsection \<open>Auxiliary facts\<close>

lemma keys_to_dict: "map fst (to_dict s) = field_names"
  by (simp add: to_dict_def field_names_def)

lemma arg_int_to_dict:
  "arg_int (to_dict s) ''current_round'' d = Some (current_round s)"
  "arg_int (to_dict s) ''user_score'' d = Some (user_score s)"
  "arg_int (to_dict s) ''bot_score'' d = Some (bot_score s)"
  by (simp_all add: arg_int_def to_dict_def)

lemma arg_bool_to_dict:
  "arg_bool (to_dict s) ''user_bomb_used'' d = Some (user_bomb_used s)"
  "arg_bool (to_dict s) ''bot_bomb_used'' d = Some (bot_bomb_used s)"
  "arg_bool (to_dict s) ''game_over'' d = Some (game_over s)"
  by (simp_all add: arg_bool_def to_dict_def)

lemma arg_opt_str_last_user_move:
  "arg_opt_str (to_dict s) ''last_user_move'' d = Some (last_user_move s)"
  by (cases "last_user_move s") (simp_all add: arg_opt_str_def to_dict_def)

lemma arg_opt_str_last_bot_move:
  "arg_opt_str (to_dict s) ''last_bot_move'' d = Some (last_bot_move s)"
  by (cases "last_bot_move s") (simp_all add: arg_opt_str_def to_dict_def)

lemma arg_opt_str_last_round_result:
  "arg_opt_str (to_dict s) ''last_round_result'' d = Some (last_round_result s)"
  by (cases "last_round_result s") (simp_all add: arg_opt_str_def to_dict_def)

lemma get_game_state_game_over:
  "map_of (fst (get_game_state s)) ''game_over'' = Some (PBool (game_over s)) \<and>
   snd (get_game_state s) = s"
  by (simp add: get_game_state_def to_dict_def)

lemma choice_mem: "xs \<noteq> [] \<Longrightarrow> choice g xs \<in> set xs"
  by (simp add: choice_def)

lemma choice_available: "choice g available_moves \<in> {''rock'', ''paper'', ''scissors''}"
  using choice_mem [of available_moves g] by (simp add: available_moves_def)

lemma validate_move_state: "snd (validate_move m u s) = s"
  by (simp add: validate_move_def Let_def)

lemma get_bot_move_state: "snd (get_bot_move g s) = s"
  by (simp add: get_bot_move_def)

lemma update_current_round:
  "current_round (snd (update_game_state um bm w i s)) = current_round s + 1"
  by (simp add: update_game_state_def Let_def)

lemma update_game_over:
  "game_over (snd (update_game_state um bm w i s)) = (game_over s \<or> 2 \<le> current_round s)"
  by (auto simp: update_game_state_def Let_def)

text \<open>What one processed input does to the state, by the three returns of the referee.\<close>

lemma process_user_input_invalid:
  assumes "\<not> game_over s" and "fst (validate_move u True s) = Invalid r"
  shows "snd (process_user_input u g s) =
           snd (update_game_state (Some u) None (Some ''invalid'') True s)"
proof -
  from assms(2) validate_move_state [of u True s]
  have "validate_move u True s = (Invalid r, s)" by (metis prod.collapse)
  with assms(1) show ?thesis
    by (simp add: process_user_input_def get_game_state_def case_prod_beta Let_def)
qed

lemma process_user_input_valid:
  assumes "\<not> game_over s" and "fst (validate_move u True s) = Valid r m"
  shows "snd (process_user_input u g s) =
           snd (update_game_state (Some m) (Some (fst (get_bot_move g s)))
                  (Some (winner (resolve_round m (fst (get_bot_move g s))))) False s)"
proof -
  from assms(2) validate_move_state [of u True s]
  have "validate_move u True s = (Valid r m, s)" by (metis prod.collapse)
  with assms(1) show ?thesis
    by (simp add: process_user_input_def get_game_state_def case_prod_beta Let_def
        get_bot_move_state)
qed

lemma process_user_input_state:
  "snd (process_user_input u g s) = s \<and> game_over s \<or>
   \<not> game_over s \<and>
   (\<exists>um bm w i. snd (process_user_input u g s) = snd (update_game_state um bm w i s))"
proof (cases "game_over s")
  case True
  then show ?thesis by (simp add: process_user_input_def)
next
  case False
  show ?thesis
  proof (cases "fst (validate_move u True s)")
    case (Invalid r)
    from process_user_input_invalid [OF False Invalid] False show ?thesis by blast
  next
    case (Valid r m)
    from process_user_input_valid [OF False Valid] False show ?thesis by blast
  qed
qed

lemma process_user_input_inv:
  assumes "round_inv s"
  shows "round_inv (snd (process_user_input u g s))"
  using process_user_input_state [of u g s] assms
  by (auto simp: round_inv_def update_current_round update_game_over)

lemma process_user_input_mono:
  "current_round s \<le> current_round (snd (process_user_input u g s))"
  using process_user_input_state [of u g s]
  by (auto simp: update_current_round)

lemma play_inv: "round_inv s \<Longrightarrow> round_inv (play steps s)"
  by (induction steps arbitrary: s) (auto simp: process_user_input_inv)

lemma play_mono: "current_round s \<le> current_round (play steps s)"
proof (induction steps arbitrary: s)
  case Nil
  show ?case by simp
next
  case (Cons p steps)
  obtain u g where p: "p = (u, g)" by (cases p)
  have "current_round s \<le> current_round (snd (process_user_input u g s))"
    by (rule process_user_input_mono)
  also have "\<dots> \<le> current_round (play steps (snd (process_user_input u g s)))"
    by (rule Cons.IH)
  finally show ?case by (simp add: p)
qed

lemma play_append: "play (xs @ ys) s = play ys (play xs s)"
  by (induction xs arbitrary: s) auto

lemma reset_inv: "round_inv (reset s)"
  by (simp add: round_inv_def reset_def)

lemma normalise_padded_rock: "strip (lower '' RoCk  '') = ''rock''"
  by code_simp

lemma normalise_upper_bomb: "strip (lower ''BOMB'') = ''bomb''"
  by code_simp

subsection \<open>Round processing after the end of a match\<close>

text \<open>
  C1 (as stated, for \<open>update_game_state\<close>): a call in a state with \<open>game_over\<close> set is
  rejected and changes no field. The function has no such test: on the finished match
  \<open>over3\<close> a fourth call counts a fourth round and gives the bot a point.
\<close>

theorem update_after_game_over_counterexample:
  "game_over over3 \<and>
   snd (update_game_state (Some ''rock'') (Some ''paper'') (Some ''bot'') False over3) \<noteq> over3 \<and>
   current_round
     (snd (update_game_state (Some ''rock'') (Some ''paper'') (Some ''bot'') False over3)) = 4 \<and>
   bot_score
     (snd (update_game_state (Some ''rock'') (Some ''paper'') (Some ''bot'') False over3)) = 1"
  by (simp add: update_game_state_def over3_def Let_def)

text \<open>
  C1 (amended): the refusal is the first test of the referee's \<open>process_user_input\<close>.
  In every state with \<open>game_over\<close> set, for every input and every outcome of the random
  source, it returns the same fixed message and leaves the whole state as it was.
\<close>

theorem process_user_input_game_over:
  assumes "game_over s"
  shows "process_user_input u g s =
           (Message ''Game is already over! Type 'quit' to exit or restart.'', s)"
  using assms by (simp add: process_user_input_def)

theorem process_user_input_game_over_witness:
  "game_over over3 \<and>
   process_user_input ''rock'' \<lparr>random = 0, randbelow = 0\<rparr> over3 =
     (Message ''Game is already over! Type 'quit' to exit or restart.'', over3)"
proof -
  have h: "game_over over3" by (simp add: over3_def)
  from process_user_input_game_over [OF h] h show ?thesis by simp
qed

subsection \<open>Resolving a round\<close>

text \<open>
  C2: for every pair of validated move labels, \<open>resolve_round\<close> names the winner that
  the specification's decision order names: draw if both are bomb, user if only the
  user's move is bomb, bot if only the bot's is, draw if the moves are equal, user if
  the user's move beats the bot's (rock beats scissors, scissors beats paper, paper
  beats rock), and bot otherwise.
\<close>

theorem resolve_round_follows_spec:
  assumes "um \<in> {''rock'', ''paper'', ''scissors'', ''bomb''}"
    and "bm \<in> {''rock'', ''paper'', ''scissors'', ''bomb''}"
  shows "winner (resolve_round um bm) = resolveRound_spec um bm"
  using assms by (auto simp: resolve_round_def resolveRound_spec_def beats_def)

theorem resolve_round_follows_spec_witness:
  "''scissors'' \<in> {''rock'', ''paper'', ''scissors'', ''bomb''} \<and>
   ''paper'' \<in> {''rock'', ''paper'', ''scissors'', ''bomb''} \<and>
   winner (resolve_round ''scissors'' ''paper'') = ''user'' \<and>
   resolveRound_spec ''scissors'' ''paper'' = ''user''"
proof -
  have a: "''scissors'' \<in> {''rock'', ''paper'', ''scissors'', ''bomb''}" by simp
  have b: "''paper'' \<in> {''rock'', ''paper'', ''scissors'', ''bomb''}" by simp
  have c: "resolveRound_spec ''scissors'' ''paper'' = ''user''"
    by (simp add: resolveRound_spec_def beats_def)
  from resolve_round_follows_spec [OF a b] a b c show ?thesis by simp
qed

subsection \<open>Updating the state\<close>

text \<open>
  C3: in every state and for all other arguments, \<open>update_game_state\<close> with
  \<open>invalid_input\<close> true adds exactly 1 to \<open>current_round\<close>, sets \<open>last_round_result\<close>
  to invalid, and leaves both scores and both bomb-used flags as they were.
\<close>

theorem update_invalid_input:
  "current_round (snd (update_game_state um bm w True s)) = current_round s + 1 \<and>
   last_round_result (snd (update_game_state um bm w True s)) = Some ''invalid'' \<and>
   user_score (snd (update_game_state um bm w True s)) = user_score s \<and>
   bot_score (snd (update_game_state um bm w True s)) = bot_score s \<and>
   user_bomb_used (snd (update_game_state um bm w True s)) = user_bomb_used s \<and>
   bot_bomb_used (snd (update_game_state um bm w True s)) = bot_bomb_used s"
  by (simp add: update_game_state_def Let_def)

text \<open>
  C4: in every state, \<open>update_game_state\<close> with \<open>invalid_input\<close> false and a winner among
  user, bot and draw adds exactly 1 to the score of the winning side (to neither on a
  draw), sets \<open>last_round_result\<close> to the winner, and sets the bomb-used flag of each side
  whose move was bomb, whoever won; the flag of a side that played another move keeps
  its value.
\<close>

theorem update_valid_round:
  assumes "w \<in> {''user'', ''bot'', ''draw''}"
  shows "user_score (snd (update_game_state um bm (Some w) False s)) =
           user_score s + (if w = ''user'' then 1 else 0) \<and>
         bot_score (snd (update_game_state um bm (Some w) False s)) =
           bot_score s + (if w = ''bot'' then 1 else 0) \<and>
         last_round_result (snd (update_game_state um bm (Some w) False s)) = Some w \<and>
         user_bomb_used (snd (update_game_state um bm (Some w) False s)) =
           (um = Some ''bomb'' \<or> user_bomb_used s) \<and>
         bot_bomb_used (snd (update_game_state um bm (Some w) False s)) =
           (bm = Some ''bomb'' \<or> bot_bomb_used s)"
  using assms by (auto simp: update_game_state_def Let_def)

theorem update_valid_round_witness:
  "''draw'' \<in> {''user'', ''bot'', ''draw''} \<and>
   snd (update_game_state (Some ''bomb'') (Some ''bomb'') (Some ''draw'') False
          GameState_default) =
     \<lparr>current_round = 1, user_score = 0, bot_score = 0,
      user_bomb_used = True, bot_bomb_used = True, game_over = False,
      last_user_move = Some ''bomb'', last_bot_move = Some ''bomb'',
      last_round_result = Some ''draw''\<rparr>"
proof -
  have h: "''draw'' \<in> {''user'', ''bot'', ''draw''}" by simp
  have v: "snd (update_game_state (Some ''bomb'') (Some ''bomb'') (Some ''draw'') False
                  GameState_default) =
     \<lparr>current_round = 1, user_score = 0, bot_score = 0,
      user_bomb_used = True, bot_bomb_used = True, game_over = False,
      last_user_move = Some ''bomb'', last_bot_move = Some ''bomb'',
      last_round_result = Some ''draw''\<rparr>"
    by (simp add: update_game_state_def GameState_default_def Let_def)
  from update_valid_round [OF h, of "Some ''bomb''" "Some ''bomb''" GameState_default] h v
  show ?thesis by simp
qed

subsection \<open>The round counter\<close>

text \<open>
  C5 (as stated, for every sequence of the engine's operations): \<open>current_round\<close> stays
  in the range 0 to 3. Four calls of \<open>update_game_state\<close> after a reset leave it at 4.
\<close>

theorem current_round_exceeds_three_counterexample:
  "current_round
     (update_rounds
        [(Some ''x'', None, Some ''invalid'', True), (Some ''x'', None, Some ''invalid'', True),
         (Some ''x'', None, Some ''invalid'', True), (Some ''x'', None, Some ''invalid'', True)]
        (reset GameState_default)) = 4 \<and>
   \<not> current_round
     (update_rounds
        [(Some ''x'', None, Some ''invalid'', True), (Some ''x'', None, Some ''invalid'', True),
         (Some ''x'', None, Some ''invalid'', True), (Some ''x'', None, Some ''invalid'', True)]
        (reset GameState_default)) \<le> 3"
  by (simp add: update_current_round reset_def GameState_default_def)

text \<open>
  C5 (amended): in every state reached from a reset by any sequence of inputs processed
  by the referee, with any outcomes of the random source, \<open>current_round\<close> is between 0
  and 3, and it never decreases when further inputs are processed. A call of
  \<open>update_game_state\<close> adds exactly 1 to it, so it never decreases there either.
\<close>

theorem current_round_bounded:
  "0 \<le> current_round (play steps (reset s0)) \<and>
   current_round (play steps (reset s0)) \<le> 3 \<and>
   current_round (play steps (reset s0)) \<le> current_round (play (steps @ later) (reset s0)) \<and>
   current_round (snd (update_game_state um bm w i s)) = current_round s + 1"
proof -
  have "round_inv (play steps (reset s0))"
    by (simp add: play_inv reset_inv)
  then show ?thesis
    by (simp add: round_inv_def play_append play_mono update_current_round)
qed

theorem current_round_bounded_witness:
  "play scenario (reset over3) =
     \<lparr>current_round = 3, user_score = 2, bot_score = 0,
      user_bomb_used = True, bot_bomb_used = False, game_over = True,
      last_user_move = Some ''bomb'', last_bot_move = Some ''paper'',
      last_round_result = Some ''user''\<rparr> \<and>
   current_round (play (scenario @ [(''rock'', \<lparr>random = 0, randbelow = 0\<rparr>)]) (reset over3)) = 3"
proof -
  have a: "play scenario (reset over3) =
     \<lparr>current_round = 3, user_score = 2, bot_score = 0,
      user_bomb_used = True, bot_bomb_used = False, game_over = True,
      last_user_move = Some ''bomb'', last_bot_move = Some ''paper'',
      last_round_result = Some ''user''\<rparr>"
    by code_simp
  from current_round_bounded
         [of scenario over3 "[(''rock'', \<lparr>random = 0, randbelow = 0\<rparr>)]" None None None True over3]
  have "3 \<le> current_round (play (scenario @ [(''rock'', \<lparr>random = 0, randbelow = 0\<rparr>)]) (reset over3))"
    and "current_round (play (scenario @ [(''rock'', \<lparr>random = 0, randbelow = 0\<rparr>)]) (reset over3)) \<le> 3"
    using a
      current_round_bounded
        [of "scenario @ [(''rock'', \<lparr>random = 0, randbelow = 0\<rparr>)]" over3 "[]" None None None True over3]
    by simp_all
  with a show ?thesis by simp
qed

subsection \<open>Validating a move\<close>

text \<open>
  C6: for every move text and side flag, \<open>validate_move\<close> returns an invalid result exactly
  when the lowercased and trimmed text is none of rock, paper, scissors and bomb, or it is
  bomb and the bomb-used flag of the submitting side is set; otherwise it returns the
  valid result that carries the normalised label; and it returns the state as it found it.
\<close>

theorem validate_move_spec:
  "(\<exists>r. fst (validate_move m u s) = Invalid r) =
     (strip (lower m) \<notin> {''rock'', ''paper'', ''scissors'', ''bomb''} \<or>
      (strip (lower m) = ''bomb'' \<and> (if u then user_bomb_used s else bot_bomb_used s))) \<and>
   (\<not> (strip (lower m) \<notin> {''rock'', ''paper'', ''scissors'', ''bomb''} \<or>
       (strip (lower m) = ''bomb'' \<and> (if u then user_bomb_used s else bot_bomb_used s)))
    \<longrightarrow> fst (validate_move m u s) = Valid ''Move is valid'' (strip (lower m))) \<and>
   snd (validate_move m u s) = s"
  by (auto simp: validate_move_def Let_def valid_moves_def)

theorem validate_move_spec_witness:
  "fst (validate_move '' RoCk  '' True GameState_default) = Valid ''Move is valid'' ''rock'' \<and>
   (\<exists>r. fst (validate_move ''BOMB'' True (GameState_default\<lparr>user_bomb_used := True\<rparr>))
          = Invalid r) \<and>
   fst (validate_move ''BOMB'' False (GameState_default\<lparr>user_bomb_used := True\<rparr>))
     = Valid ''Move is valid'' ''bomb''"
  using validate_move_spec [of "'' RoCk  ''" True GameState_default]
        validate_move_spec [of "''BOMB''" True "GameState_default\<lparr>user_bomb_used := True\<rparr>"]
        validate_move_spec [of "''BOMB''" False "GameState_default\<lparr>user_bomb_used := True\<rparr>"]
  by (simp add: normalise_padded_rock normalise_upper_bomb GameState_default_def)

subsection \<open>Reset\<close>

text \<open>
  C7: whatever the state before, \<open>reset\<close> yields the zero state: round 0, both scores 0,
  both bomb-used flags and \<open>game_over\<close> false, and the last moves and the last result
  absent. \<open>reset_game\<close> leaves that state behind and returns its dictionary.
\<close>

theorem reset_zero_state:
  "reset s =
     \<lparr>current_round = 0, user_score = 0, bot_score = 0,
      user_bomb_used = False, bot_bomb_used = False, game_over = False,
      last_user_move = None, last_bot_move = None, last_round_result = None\<rparr> \<and>
   snd (reset_game s) =
     \<lparr>current_round = 0, user_score = 0, bot_score = 0,
      user_bomb_used = False, bot_bomb_used = False, game_over = False,
      last_user_move = None, last_bot_move = None, last_round_result = None\<rparr> \<and>
   fst (reset_game s) = to_dict (snd (reset_game s))"
  by (simp add: reset_def reset_game_def Let_def)

subsection \<open>The move of the bot\<close>

text \<open>
  C8: for every outcome of the random source, \<open>get_bot_move\<close> does not return bomb when
  \<open>current_round\<close> is 0 or the bot's bomb-used flag is set; its result is then one of
  rock, paper and scissors.
\<close>

theorem get_bot_move_no_bomb:
  assumes "current_round s = 0 \<or> bot_bomb_used s"
  shows "fst (get_bot_move g s) \<noteq> ''bomb'' \<and>
         fst (get_bot_move g s) \<in> {''rock'', ''paper'', ''scissors''}"
proof -
  from assms have "get_bot_move g s = (choice g available_moves, s)"
    by (auto simp: get_bot_move_def)
  with choice_available [of g] show ?thesis by auto
qed

theorem get_bot_move_no_bomb_witness:
  "(current_round GameState_default = 0 \<or> bot_bomb_used GameState_default) \<and>
   fst (get_bot_move \<lparr>random = 0, randbelow = 4\<rparr> GameState_default) = ''paper'' \<and>
   (current_round (over3\<lparr>bot_bomb_used := True\<rparr>) = 0 \<or>
      bot_bomb_used (over3\<lparr>bot_bomb_used := True\<rparr>)) \<and>
   fst (get_bot_move \<lparr>random = 0, randbelow = 0\<rparr> (over3\<lparr>bot_bomb_used := True\<rparr>)) = ''rock''"
proof -
  have h1: "current_round GameState_default = 0 \<or> bot_bomb_used GameState_default"
    by (simp add: GameState_default_def)
  have h2: "current_round (over3\<lparr>bot_bomb_used := True\<rparr>) = 0 \<or>
            bot_bomb_used (over3\<lparr>bot_bomb_used := True\<rparr>)"
    by simp
  have v1: "fst (get_bot_move \<lparr>random = 0, randbelow = 4\<rparr> GameState_default) = ''paper''"
    by (simp add: get_bot_move_def GameState_default_def choice_def available_moves_def)
  have v2: "fst (get_bot_move \<lparr>random = 0, randbelow = 0\<rparr> (over3\<lparr>bot_bomb_used := True\<rparr>))
            = ''rock''"
    by (simp add: get_bot_move_def choice_def available_moves_def)
  from get_bot_move_no_bomb [OF h1, of "\<lparr>random = 0, randbelow = 4\<rparr>"]
       get_bot_move_no_bomb [OF h2, of "\<lparr>random = 0, randbelow = 0\<rparr>"] h1 h2 v1 v2
  show ?thesis by simp
qed

subsection \<open>The state as a dictionary\<close>

text \<open>
  C9: for every state \<open>s\<close>, \<open>from_dict (to_dict s)\<close> is \<open>s\<close>, and the keys of \<open>to_dict s\<close>
  are exactly the nine field names of the state, each once.
\<close>

theorem from_dict_to_dict:
  "from_dict (to_dict s) = Inr s \<and>
   map fst (to_dict s) =
     [''current_round'', ''user_score'', ''bot_score'', ''user_bomb_used'',
      ''bot_bomb_used'', ''game_over'', ''last_user_move'', ''last_bot_move'',
      ''last_round_result''] \<and>
   length (to_dict s) = 9"
proof -
  have "\<not> list_ex (\<lambda>k. k \<notin> set field_names) (map fst (to_dict s))"
    by (simp add: keys_to_dict list_ex_iff)
  then have "from_dict (to_dict s) = Inr s"
    by (simp add: from_dict_def arg_int_to_dict arg_bool_to_dict arg_opt_str_last_user_move
        arg_opt_str_last_bot_move arg_opt_str_last_round_result)
  moreover have "length (to_dict s) = 9"
    by (simp add: to_dict_def)
  moreover have "map fst (to_dict s) =
     [''current_round'', ''user_score'', ''bot_score'', ''user_bomb_used'',
      ''bot_bomb_used'', ''game_over'', ''last_user_move'', ''last_bot_move'',
      ''last_round_result'']"
    by (simp add: to_dict_def)
  ultimately show ?thesis by simp
qed

subsection \<open>Resolving a round on arbitrary text\<close>

text \<open>
  C10: \<open>resolve_round\<close> is defined on every pair of strings and its winner is always one
  of user, bot and draw; for two different strings, neither of them bomb, that are not
  one of the three combinations the user wins, the winner is bot, whether the strings
  are move labels or not.
\<close>

theorem resolve_round_total:
  "winner (resolve_round a b) \<in> {''user'', ''bot'', ''draw''} \<and>
   (a \<noteq> b \<and> a \<noteq> ''bomb'' \<and> b \<noteq> ''bomb'' \<and>
    (a, b) \<notin> {(''rock'', ''scissors''), (''scissors'', ''paper''), (''paper'', ''rock'')}
    \<longrightarrow> winner (resolve_round a b) = ''bot'')"
  by (simp add: resolve_round_def)

theorem resolve_round_total_witness:
  "winner (resolve_round ''lizard'' ''spock'') = ''bot'' \<and>
   winner (resolve_round ''lizard'' ''rock'') = ''bot'' \<and>
   winner (resolve_round ''rock'' ''lizard'') = ''bot''"
  using resolve_round_total [of "''lizard''" "''spock''"]
        resolve_round_total [of "''lizard''" "''rock''"]
        resolve_round_total [of "''rock''" "''lizard''"]
  by simp

end
